theory Spec2Isabelle
  imports Main
begin

section \<open>Go values: machine integers, byte strings and runes\<close>

text \<open>
  A Go \<open>string\<close> is a sequence of bytes: it is modelled as a \<open>char list\<close> (a \<open>char\<close> is
  one byte), so \<open>len(s)\<close> is \<open>length s\<close> and offsets are byte offsets.  A Go \<open>int\<close> is a
  64-bit signed integer: it is modelled as an \<open>int\<close>, and \<open>wrap64\<close> is written wherever the
  source adds to a value that is not bounded by the length of a string.
\<close>

type_synonym rune = int

definition wrap64 :: "int \<Rightarrow> int" where
  "wrap64 x = (x + 2 ^ 63) mod 2 ^ 64 - 2 ^ 63"

datatype error =
    Panic     \<comment> \<open>a run-time panic: slice bounds out of range\<close>
  | Fatal     \<comment> \<open>\<open>log.Fatal\<close>: the process exits\<close>
  | IOError   \<comment> \<open>an error of the underlying reader\<close>
  | ErrTooLong  \<comment> \<open>\<open>bufio.ErrTooLong\<close>: a line does not fit the scanner's buffer\<close>

definition RuneError :: rune where
  "RuneError = 65533"

definition byte :: "char \<Rightarrow> int" where
  "byte c = of_char c"

definition cont :: "char \<Rightarrow> bool" where
  "cont c = (128 \<le> byte c \<and> byte c < 192)"

text \<open>
  \<open>utf8.DecodeRuneInString\<close>: the first rune of a string and its width in bytes.  An
  invalid or truncated encoding is the rune \<open>U+FFFD\<close> of width 1; the empty string
  gives width 0.
\<close>

fun DecodeRune :: "string \<Rightarrow> rune \<times> nat" where
  "DecodeRune [] = (RuneError, 0)"
| "DecodeRune (c0 # s) =
     (let b0 = byte c0 in
      if b0 < 128 then (b0, 1)
      else if 194 \<le> b0 \<and> b0 \<le> 223 then
        (case s of
           c1 # _ \<Rightarrow>
             if cont c1 then ((b0 - 192) * 64 + (byte c1 - 128), 2) else (RuneError, 1)
         | [] \<Rightarrow> (RuneError, 1))
      else if 224 \<le> b0 \<and> b0 \<le> 239 then
        (case s of
           c1 # c2 # _ \<Rightarrow>
             if (if b0 = 224 then 160 else 128) \<le> byte c1
                \<and> byte c1 \<le> (if b0 = 237 then 159 else 191) \<and> cont c2
             then (((b0 - 224) * 64 + (byte c1 - 128)) * 64 + (byte c2 - 128), 3)
             else (RuneError, 1)
         | _ \<Rightarrow> (RuneError, 1))
      else if 240 \<le> b0 \<and> b0 \<le> 244 then
        (case s of
           c1 # c2 # c3 # _ \<Rightarrow>
             if (if b0 = 240 then 144 else 128) \<le> byte c1
                \<and> byte c1 \<le> (if b0 = 244 then 143 else 191) \<and> cont c2 \<and> cont c3
             then ((((b0 - 240) * 64 + (byte c1 - 128)) * 64 + (byte c2 - 128)) * 64
                     + (byte c3 - 128), 4)
             else (RuneError, 1)
         | _ \<Rightarrow> (RuneError, 1))
      else (RuneError, 1))"

text \<open>
  The UTF-8 encoding of one rune, as the conversion \<open>string(r)\<close> writes it: a value that
  is no Unicode scalar value is written as \<open>U+FFFD\<close>.
\<close>

definition EncodeRune :: "rune \<Rightarrow> string" where
  "EncodeRune r =
     (if r < 0 \<or> (55296 \<le> r \<and> r \<le> 57343) \<or> 1114111 < r
        then [char_of (239::int), char_of (191::int), char_of (189::int)]
      else if r < 128 then [char_of r]
      else if r < 2048 then [char_of (192 + r div 64), char_of (128 + r mod 64)]
      else if r < 65536
        then [char_of (224 + r div 4096), char_of (128 + r div 64 mod 64),
              char_of (128 + r mod 64)]
      else [char_of (240 + r div 262144), char_of (128 + r div 4096 mod 64),
            char_of (128 + r div 64 mod 64), char_of (128 + r mod 64)])"

lemma DecodeRune_width_pos: "s \<noteq> [] \<Longrightarrow> 0 < snd (DecodeRune s)"
  by (cases s) (auto simp: Let_def split: list.splits)

lemma DecodeRune_width_le: "snd (DecodeRune s) \<le> length s"
  by (cases s) (auto simp: Let_def split: list.splits)

text \<open>The conversions \<open>[]rune(s)\<close> and \<open>string(rs)\<close>.\<close>

function runes :: "string \<Rightarrow> rune list" where
  "runes s =
     (if s = [] then []
      else fst (DecodeRune s) # runes (drop (snd (DecodeRune s)) s))"
  by pat_completeness auto
termination
  by (relation "measure length") (auto simp: DecodeRune_width_pos)

declare runes.simps [simp del]

definition string_of_runes :: "rune list \<Rightarrow> string" where
  "string_of_runes rs = concat (map EncodeRune rs)"

text \<open>\<open>text[i:j]\<close> for offsets that are in range.\<close>

definition slice :: "string \<Rightarrow> nat \<Rightarrow> nat \<Rightarrow> string" where
  "slice s i j = take (j - i) (drop i s)"

text \<open>\<open>strconv.Itoa\<close> and \<open>strconv.Atoi\<close> (on a run of ASCII digits).\<close>

definition digit_char :: "int \<Rightarrow> char" where
  "digit_char d = char_of (48 + d)"

function decimal :: "int \<Rightarrow> string" where
  "decimal n = (if n < 10 then [digit_char n] else decimal (n div 10) @ [digit_char (n mod 10)])"
  by pat_completeness auto
termination
  by (relation "measure nat") auto

declare decimal.simps [simp del]

definition Itoa :: "int \<Rightarrow> string" where
  "Itoa i = (if i < 0 then CHR ''-'' # decimal (- i) else decimal i)"

definition digits_value :: "string \<Rightarrow> int" where
  "digits_value ds = foldl (\<lambda>v c. 10 * v + (byte c - 48)) 0 ds"

definition Atoi :: "string \<Rightarrow> error + int" where
  "Atoi ds =
     (if digits_value ds \<le> 9223372036854775807 then Inr (digits_value ds) else Inl Fatal)"

section \<open>Regular expressions as Go's \<open>regexp\<close> package matches them\<close>

text \<open>
  The patterns of the program use literals, character classes, a greedy \<open>+\<close> and a lazy
  \<open>*?\<close> on a class, concatenation, alternation, capture groups and the anchors \<open>^\<close> and
  \<open>$\<close>.  A configuration is the offset reached, the text that is left and the capture
  groups closed so far (the latest first).  \<open>run\<close> lists the configurations a
  backtracking matcher reaches, in the order it tries them: Go returns the leftmost match
  and, among those, the one a backtracking search finds first.  Classes are read rune by
  rune, as the package decodes the text; a literal is compared byte by byte, which is the
  same for the literals used here (valid UTF-8 without \<open>U+FFFD\<close>).
\<close>

datatype re =
    Lit string
  | Cls "rune \<Rightarrow> bool"
  | PlusG "rune \<Rightarrow> bool"
  | StarL "rune \<Rightarrow> bool"
  | Seq re re
  | Alt re re
  | Grp nat re
  | Bol
  | Eol

type_synonym conf = "nat \<times> string \<times> (nat \<times> nat \<times> nat) list"

definition stepC :: "(rune \<Rightarrow> bool) \<Rightarrow> conf \<Rightarrow> conf option" where
  "stepC P cf =
     (case cf of (p, s, c) \<Rightarrow>
        if s \<noteq> [] \<and> P (fst (DecodeRune s))
        then Some (p + snd (DecodeRune s), drop (snd (DecodeRune s)) s, c)
        else None)"

lemma stepC_shorter:
  "stepC P cf = Some cf' \<Longrightarrow> length (fst (snd cf')) < length (fst (snd cf))"
  by (cases cf) (auto simp: stepC_def DecodeRune_width_pos split: if_splits)

function starG :: "(rune \<Rightarrow> bool) \<Rightarrow> conf \<Rightarrow> conf list" where
  "starG P cf = (case stepC P cf of None \<Rightarrow> [cf] | Some cf' \<Rightarrow> starG P cf' @ [cf])"
  by pat_completeness auto
termination
  by (relation "measure (\<lambda>(P, cf). length (fst (snd cf)))") (auto dest: stepC_shorter)

function starL :: "(rune \<Rightarrow> bool) \<Rightarrow> conf \<Rightarrow> conf list" where
  "starL P cf = cf # (case stepC P cf of None \<Rightarrow> [] | Some cf' \<Rightarrow> starL P cf')"
  by pat_completeness auto
termination
  by (relation "measure (\<lambda>(P, cf). length (fst (snd cf)))") (auto dest: stepC_shorter)

declare starG.simps [simp del] starL.simps [simp del]

primrec run :: "re \<Rightarrow> conf \<Rightarrow> conf list" where
  "run (Lit l) cf =
     (case cf of (p, s, c) \<Rightarrow>
        if take (length l) s = l then [(p + length l, drop (length l) s, c)] else [])"
| "run (Cls P) cf = (case stepC P cf of None \<Rightarrow> [] | Some cf' \<Rightarrow> [cf'])"
| "run (PlusG P) cf = (case stepC P cf of None \<Rightarrow> [] | Some cf' \<Rightarrow> starG P cf')"
| "run (StarL P) cf = starL P cf"
| "run (Seq a b) cf = concat (map (run b) (run a cf))"
| "run (Alt a b) cf = run a cf @ run b cf"
| "run (Grp k a) cf = map (\<lambda>(p', s', c'). (p', s', (k, fst cf, p') # c')) (run a cf)"
| "run Bol cf = (if fst cf = 0 then [cf] else [])"
| "run Eol cf = (if fst (snd cf) = [] then [cf] else [])"

fun alts :: "re list \<Rightarrow> re" where
  "alts [] = Lit []"
| "alts [r] = r"
| "alts (r # rs) = Alt r (alts rs)"

text \<open>
  The leftmost match at or after offset \<open>p\<close>, where \<open>s\<close> is the text from \<open>p\<close> on: the
  start offset and the configuration at the end of the match.
\<close>

function search :: "re \<Rightarrow> nat \<Rightarrow> string \<Rightarrow> (nat \<times> conf) option" where
  "search r p s =
     (case run r (p, s, []) of
        cf # _ \<Rightarrow> Some (p, cf)
      | [] \<Rightarrow>
          if s = [] then None
          else search r (p + snd (DecodeRune s)) (drop (snd (DecodeRune s)) s))"
  by pat_completeness auto
termination
  by (relation "measure (\<lambda>(r, p, s). length s)") (auto simp: DecodeRune_width_pos)

declare search.simps [simp del]

text \<open>
  \<open>FindStringSubmatch\<close>: the whole match and the text of groups \<open>1..n\<close> (\<open>""\<close> for a
  group that took no part), or the empty list when nothing matches.
\<close>

definition FindStringSubmatch :: "re \<Rightarrow> nat \<Rightarrow> string \<Rightarrow> string list" where
  "FindStringSubmatch r n text =
     (case search r 0 text of
        None \<Rightarrow> []
      | Some (a, (b, _, caps)) \<Rightarrow>
          slice text a b #
          map (\<lambda>k. case map_of caps k of None \<Rightarrow> [] | Some (x, y) \<Rightarrow> slice text x y)
            [1 ..< Suc n])"

text \<open>
  Every configuration a match reaches keeps the sum of its offset and the length of the
  text that is left, and never moves left: this is what makes \<open>FindAllStringIndex\<close>
  below terminate.
\<close>

definition total :: "conf \<Rightarrow> nat" where
  "total cf = fst cf + length (fst (snd cf))"

lemma stepC_total: "stepC P cf = Some cf' \<Longrightarrow> total cf' = total cf \<and> fst cf < fst cf'"
  using DecodeRune_width_le [of "fst (snd cf)"] DecodeRune_width_pos [of "fst (snd cf)"]
  by (cases cf) (auto simp: stepC_def total_def split: if_splits)

lemma starG_total: "cf' \<in> set (starG P cf) \<Longrightarrow> total cf' = total cf \<and> fst cf \<le> fst cf'"
proof (induction P cf rule: starG.induct)
  case (1 P cf)
  show ?case
  proof (cases "stepC P cf")
    case None
    with "1.prems" show ?thesis by (simp add: starG.simps [of P cf])
  next
    case (Some cf1)
    with "1.prems" have "cf' \<in> set (starG P cf1) \<or> cf' = cf"
      by (auto simp: starG.simps [of P cf])
    with "1.IH" [OF Some] stepC_total [OF Some] show ?thesis by auto
  qed
qed

lemma starL_total: "cf' \<in> set (starL P cf) \<Longrightarrow> total cf' = total cf \<and> fst cf \<le> fst cf'"
proof (induction P cf rule: starL.induct)
  case (1 P cf)
  show ?case
  proof (cases "stepC P cf")
    case None
    with "1.prems" show ?thesis by (simp add: starL.simps [of P cf])
  next
    case (Some cf1)
    with "1.prems" have "cf' \<in> set (starL P cf1) \<or> cf' = cf"
      by (auto simp: starL.simps [of P cf])
    with "1.IH" [OF Some] stepC_total [OF Some] show ?thesis by auto
  qed
qed

lemma run_total: "cf' \<in> set (run r cf) \<Longrightarrow> total cf' = total cf \<and> fst cf \<le> fst cf'"
proof (induction r arbitrary: cf cf')
  case (Lit l)
  then show ?case
    by (cases cf) (auto simp: total_def split: if_splits dest: arg_cong [where f = length])
next
  case (Cls P)
  then show ?case using stepC_total [of P cf cf'] by (auto split: option.splits)
next
  case (PlusG P)
  show ?case
  proof (cases "stepC P cf")
    case None
    with PlusG show ?thesis by simp
  next
    case (Some cf1)
    with PlusG have "cf' \<in> set (starG P cf1)" by simp
    with starG_total [of cf' P cf1] stepC_total [OF Some] show ?thesis by simp
  qed
next
  case (StarL P)
  then show ?case by (auto dest: starL_total)
next
  case (Seq a b)
  from Seq.prems obtain cf1 where "cf1 \<in> set (run a cf)" "cf' \<in> set (run b cf1)" by auto
  with Seq.IH (1) [of cf1 cf] Seq.IH (2) [of cf' cf1] show ?case by simp
next
  case (Alt a b)
  from Alt.prems have "cf' \<in> set (run a cf) \<or> cf' \<in> set (run b cf)" by simp
  then show ?case using Alt.IH by blast
next
  case (Grp k a)
  from Grp.prems obtain cf1 where "cf1 \<in> set (run a cf)"
    "cf' = (fst cf1, fst (snd cf1), (k, fst cf, fst cf1) # snd (snd cf1))"
    by (auto simp: case_prod_beta)
  with Grp.IH [of cf1 cf] show ?case by (simp add: total_def)
next
  case Bol
  then show ?case by (auto split: if_splits)
next
  case Eol
  then show ?case by (auto split: if_splits)
qed

lemma search_total:
  "search r p s = Some (a, cf) \<Longrightarrow> p \<le> a \<and> a \<le> fst cf \<and> total cf = p + length s"
proof (induction r p s rule: search.induct)
  case (1 r p s)
  show ?case
  proof (cases "run r (p, s, [])")
    case Nil
    with "1.prems" have ne: "s \<noteq> []"
      and rec: "search r (p + snd (DecodeRune s)) (drop (snd (DecodeRune s)) s) = Some (a, cf)"
      by (auto simp: search.simps [of r p s] split: if_splits)
    from "1.IH" [OF Nil ne rec] DecodeRune_width_le [of s] show ?thesis by auto
  next
    case (Cons cf0 cfs)
    with "1.prems" have "a = p" "cf = cf0" by (auto simp: search.simps [of r p s])
    moreover from Cons have "cf0 \<in> set (run r (p, s, []))" by simp
    ultimately show ?thesis using run_total [of cf0 r "(p, s, [])"] by (simp add: total_def)
  qed
qed

text \<open>
  \<open>FindAllStringIndex(text, -1)\<close>: the successive leftmost matches, each search starting
  where the previous match ended.  \<open>prev\<close> is the end of the previous match (\<open>-1\<close> at
  first): a match that is empty at the search position is dropped when it touches the
  previous match, and the search moves on by one rune.
\<close>

function findAll :: "re \<Rightarrow> nat \<Rightarrow> string \<Rightarrow> int \<Rightarrow> (nat \<times> nat) list" where
  "findAll r p s prev =
     (case search r p s of
        None \<Rightarrow> []
      | Some (a, (b, s', c)) \<Rightarrow>
          if b = p then
            (if int a = prev then [] else [(a, b)]) @
            (if s = [] then []
             else findAll r (p + snd (DecodeRune s)) (drop (snd (DecodeRune s)) s) (int b))
          else (a, b) # findAll r b s' (int b))"
  by pat_completeness auto
termination
  apply (relation "measure (\<lambda>(r, p, s, prev). length s)")
  apply simp
  apply (simp add: DecodeRune_width_pos)
  subgoal for r p s prev x a y b z s' c
    using search_total [of r p s a "(b, s', c)"] by (auto simp: total_def)
  done

declare findAll.simps [simp del]

definition FindAllStringIndex :: "re \<Rightarrow> string \<Rightarrow> (nat \<times> nat) list" where
  "FindAllStringIndex r text = findAll r 0 text (- 1)"

section \<open>The parser (\<open>parser/parser.go\<close>)\<close>

subsection \<open>Data model\<close>

datatype ItemType = ItText | ItItem | ItTitle

datatype ItemStatus = StUnknown | StPending | StStarted | StDone | StCancel | StArchive

datatype TagType =
    TagNormal | TagTime | TagDone | TagStarted | TagLasted | TagEst | TagCritical | TagHigh
  | TagLow | TagToday | TagBold | TagItalic | TagDeleted | TagCode | TagUnknown

text \<open>
  \<open>Tag\<close>: the fields \<open>Type\<close> and \<open>Text\<close> of the source are \<open>TagTyp\<close> and \<open>TagText\<close> here
  (a \<open>Todoitem\<close> has fields of the same names).
\<close>

record Tag =
  Start :: int
  Stop :: int
  TagTyp :: TagType
  TagText :: string

text \<open>
  \<open>Todoitem\<close>.  Nodes are shared through pointers and updated in place, so they live in
  a store (a list of nodes) and a pointer \<open>*Todoitem\<close> is an index into it; \<open>nil\<close> is
  \<open>None\<close>.
\<close>

record Todoitem =
  Ident :: int
  Type :: ItemType
  Token :: string
  Text :: string
  Status :: ItemStatus
  StatusTimes :: "(ItemStatus \<times> int) list"
  Tags :: "Tag list"
  Assignees :: "Tag list"
  Items :: "nat list"
  parent :: "nat option"
  offset :: int

record Todofile =
  FileItems :: "nat list"

type_synonym heap = "Todoitem list"

definition zeroTodoitem :: Todoitem where
  "zeroTodoitem =
     \<lparr>Ident = 0, Type = ItText, Token = [], Text = [], Status = StUnknown, StatusTimes = [],
      Tags = [], Assignees = [], Items = [], parent = None, offset = 0\<rparr>"

subsection \<open>The glyph vocabulary and the patterns\<close>

text \<open>
  \<open>strings.Split(box, " ")\<close>, \<open>strings.Split(done, " ")\<close> and
  \<open>strings.Split(cancel, " ")\<close>, the glyphs outside ASCII by their UTF-8 bytes.
\<close>

definition box_glyphs :: "string list" where
  "box_glyphs =
     [''-'',
      [CHR 0xE2, CHR 0x9D, CHR 0x8D], [CHR 0xE2, CHR 0x9D, CHR 0x91],
      [CHR 0xE2, CHR 0x96, CHR 0xA0], [CHR 0xE2, CHR 0xAC, CHR 0x9C],
      [CHR 0xE2, CHR 0x96, CHR 0xA1], [CHR 0xE2, CHR 0x98, CHR 0x90],
      [CHR 0xE2, CHR 0x96, CHR 0xAA], [CHR 0xE2, CHR 0x96, CHR 0xAB],
      [CHR 0xE2, CHR 0x80, CHR 0x93], [CHR 0xE2, CHR 0x80, CHR 0x94],
      [CHR 0xE2, CHR 0x89, CHR 0xA1], [CHR 0xE2, CHR 0x86, CHR 0x92],
      [CHR 0xE2, CHR 0x80, CHR 0xBA],
      ''[]'']"

definition done_glyphs :: "string list" where
  "done_glyphs =
     [[CHR 0xE2, CHR 0x9C, CHR 0x94], [CHR 0xE2, CHR 0x9C, CHR 0x93],
      [CHR 0xE2, CHR 0x98, CHR 0x91], ''+'', ''[x]'', ''[X]'', ''[+]'']"

definition cancel_glyphs :: "string list" where
  "cancel_glyphs = [[CHR 0xE2, CHR 0x9C, CHR 0x98], ''x'', ''X'', ''[-]'']"

text \<open>The Perl classes of the patterns: \<open>\s\<close>, \<open>\d\<close>, \<open>\w\<close> (all ASCII only) and \<open>.\<close>.\<close>

definition re_s :: "rune \<Rightarrow> bool" where
  "re_s r = (r = 9 \<or> r = 10 \<or> r = 12 \<or> r = 13 \<or> r = 32)"

definition re_d :: "rune \<Rightarrow> bool" where
  "re_d r = (48 \<le> r \<and> r \<le> 57)"

definition re_w :: "rune \<Rightarrow> bool" where
  "re_w r = (re_d r \<or> (65 \<le> r \<and> r \<le> 90) \<or> r = 95 \<or> (97 \<le> r \<and> r \<le> 122))"

definition re_dot :: "rune \<Rightarrow> bool" where
  "re_dot r = (r \<noteq> 10)"

text \<open>
  \<open>buildLineRegexp\<close>: \<open>enc\<close> escapes \<open>+\<close>, \<open>[\<close> and \<open>]\<close>, so every glyph is a literal; the
  alternatives are the box glyphs, \<open>\[\s+\]\<close>, the done glyphs and the cancel glyphs, in
  this order, and the pattern is \<open>^(...)\s+(.*?)$\<close>.
\<close>

definition reLine :: re where
  "reLine =
     Seq Bol
       (Seq (Grp 1 (alts (map Lit box_glyphs
                          @ [Seq (Lit ''['') (Seq (PlusG re_s) (Lit '']''))]
                          @ map Lit done_glyphs @ map Lit cancel_glyphs)))
         (Seq (PlusG re_s) (Seq (Grp 2 (StarL re_dot)) Eol)))"

text \<open>
  \<open>buildTitleRegexp\<close>: \<open>^[^...].*?:$\<close>, the class holding every character of the escaped
  glyphs joined without separator.  The class ends in \<open>\[-\]\<close>, which inside a class is
  the range from \<open>[\<close> to \<open>]\<close>: it adds the backslash (rune 92).
\<close>

definition title_excluded :: "rune list" where
  "title_excluded = concat (map runes (box_glyphs @ done_glyphs @ cancel_glyphs)) @ [92]"

definition reTitle :: re where
  "reTitle =
     Seq Bol (Seq (Cls (\<lambda>r. r \<notin> set title_excluded))
       (Seq (StarL re_dot) (Seq (Lit '':'') Eol)))"

text \<open>
  \<open>reTag\<close> is \<open>@[\w\p{L}\d]+(\([\w\d\s:-]+\)|\S)\<close>.  The table of the Unicode category
  \<open>L\<close> (letters) belongs to Go's \<open>unicode\<close> package: within ASCII it holds the letters
  \<open>A-Z\<close> and \<open>a-z\<close>; beyond ASCII it is the parameter \<open>L\<close> of everything that uses the
  pattern.
\<close>

definition re_L :: "(rune \<Rightarrow> bool) \<Rightarrow> rune \<Rightarrow> bool" where
  "re_L L r = (if r < 128 then (65 \<le> r \<and> r \<le> 90) \<or> (97 \<le> r \<and> r \<le> 122) else L r)"

definition reTag :: "(rune \<Rightarrow> bool) \<Rightarrow> re" where
  "reTag L =
     Seq (Lit ''@'')
       (Seq (PlusG (\<lambda>r. re_w r \<or> re_L L r \<or> re_d r))
         (Grp 1 (Alt (Seq (Lit ''('')
                       (Seq (PlusG (\<lambda>r. re_w r \<or> re_d r \<or> re_s r \<or> r = 58 \<or> r = 45))
                         (Lit '')'')))
                     (Cls (\<lambda>r. \<not> re_s r)))))"

text \<open>\<open>reFmtTxt\<close> is \<open>\*.*?\*|`.*?`|~.*?~|_.*?_\<close>.\<close>

definition reFmtTxt :: re where
  "reFmtTxt =
     Alt (Seq (Lit ''*'') (Seq (StarL re_dot) (Lit ''*'')))
       (Alt (Seq (Lit [CHR 0x60]) (Seq (StarL re_dot) (Lit [CHR 0x60])))
         (Alt (Seq (Lit ''~'') (Seq (StarL re_dot) (Lit ''~'')))
              (Seq (Lit ''_'') (Seq (StarL re_dot) (Lit ''_'')))))"

subsection \<open>Classifying a line\<close>

definition tokenStatus :: "string \<Rightarrow> ItemStatus" where
  "tokenStatus token =
     (if token \<in> set (box_glyphs @ [''[ ]'']) then StPending
      else if token \<in> set done_glyphs then StDone
      else if token \<in> set cancel_glyphs then StCancel
      else StPending)"

fun ident_loop :: "rune list \<Rightarrow> int \<Rightarrow> int \<Rightarrow> int \<times> string" where
  "ident_loop [] width j = (j, [])"
| "ident_loop (c # r) width j =
     (if c = 32 then ident_loop r width (j + 1)
      else if c = 9 then ident_loop r width (j + width)
      else (j, string_of_runes (c # r)))"

definition ident :: "string \<Rightarrow> int \<Rightarrow> int \<times> string" where
  "ident line width = ident_loop (runes line) width 0"

definition HasPrefix :: "string \<Rightarrow> string \<Rightarrow> bool" where
  "HasPrefix s pre = (take (length pre) s = pre)"

text \<open>\<open>tag[0]\<close> and \<open>text[0]\<close> panic on the empty string.\<close>

definition tagType :: "string \<Rightarrow> error + TagType" where
  "tagType tag =
     (case tag of
        [] \<Rightarrow> Inl Panic
      | c # rest \<Rightarrow>
          if c \<noteq> CHR ''@'' then Inr TagNormal
          else if HasPrefix rest ''done'' then Inr TagDone
          else if HasPrefix rest ''started'' then Inr TagStarted
          else if HasPrefix rest ''est'' then Inr TagEst
          else if HasPrefix rest ''lasted'' then Inr TagLasted
          else if HasPrefix rest ''critical'' then Inr TagCritical
          else if HasPrefix rest ''high'' then Inr TagHigh
          else if HasPrefix rest ''low'' then Inr TagLow
          else if HasPrefix rest ''today'' then Inr TagToday
          else Inr TagNormal)"

definition formatTag :: "string \<Rightarrow> error + TagType" where
  "formatTag text =
     (case text of
        [] \<Rightarrow> Inl Panic
      | c # _ \<Rightarrow>
          if c = CHR ''*'' then Inr TagBold
          else if c = CHR ''_'' then Inr TagItalic
          else if c = CHR ''~'' then Inr TagDeleted
          else if c = CHR 0x60 then Inr TagCode
          else Inr TagUnknown)"

text \<open>
  The loop of \<open>parseTag\<close> and of \<open>parseFormatText\<close> over the matches: one \<open>Tag\<close> per
  match, in the order of the matches; \<open>classify\<close> is \<open>tagType\<close> or \<open>formatTag\<close>.
\<close>

fun mkTags :: "(string \<Rightarrow> error + TagType) \<Rightarrow> string \<Rightarrow> (nat \<times> nat) list \<Rightarrow> error + Tag list" where
  "mkTags classify text [] = Inr []"
| "mkTags classify text ((i0, i1) # idxs) =
     (case classify (slice text i0 i1) of
        Inl e \<Rightarrow> Inl e
      | Inr ty \<Rightarrow>
          (case mkTags classify text idxs of
             Inl e \<Rightarrow> Inl e
           | Inr tags \<Rightarrow>
               Inr (\<lparr>Start = int i0, Stop = int i1, TagTyp = ty, TagText = slice text i0 i1\<rparr>
                    # tags)))"

text \<open>
  \<open>parseTag\<close> and \<open>parseFormatText\<close> append their tags to \<open>node.Tags\<close> (and return them;
  no caller reads the result).
\<close>

definition parseTag :: "(rune \<Rightarrow> bool) \<Rightarrow> string \<Rightarrow> Todoitem \<Rightarrow> error + Todoitem" where
  "parseTag L text node =
     (let idxs = FindAllStringIndex (reTag L) text in
      if length idxs = 0 then Inr node
      else case mkTags tagType text idxs of
             Inl e \<Rightarrow> Inl e
           | Inr tags \<Rightarrow> Inr (node\<lparr>Tags := Tags node @ tags\<rparr>))"

definition parseFormatText :: "string \<Rightarrow> Todoitem \<Rightarrow> error + Todoitem" where
  "parseFormatText text node =
     (let idxs = FindAllStringIndex reFmtTxt text in
      if length idxs = 0 then Inr node
      else case mkTags formatTag text idxs of
             Inl e \<Rightarrow> Inl e
           | Inr tags \<Rightarrow> Inr (node\<lparr>Tags := Tags node @ tags\<rparr>))"

text \<open>
  \<open>parseLine\<close>.  Its third result is always \<open>nil\<close>: \<open>Inl\<close> stands for a panic of the
  indexing above.
\<close>

definition classifyLine :: "string \<Rightarrow> Todoitem" where
  "classifyLine pureline =
     (let s = FindStringSubmatch reLine 2 pureline in
      if length s > 0 then
        zeroTodoitem\<lparr>Type := ItItem, Token := s ! 1, Text := s ! 2, Status := tokenStatus (s ! 1)\<rparr>
      else
        let s = FindStringSubmatch reTitle 0 pureline in
        if length s > 0 then zeroTodoitem\<lparr>Type := ItTitle, Status := StUnknown, Text := s ! 0\<rparr>
        else zeroTodoitem\<lparr>Text := pureline\<rparr>)"

definition parseLine :: "(rune \<Rightarrow> bool) \<Rightarrow> string \<Rightarrow> error + (int \<times> Todoitem)" where
  "parseLine L line =
     (let (idt, pureline) = ident line 4;
          todo = (classifyLine pureline)\<lparr>Ident := idt, Items := []\<rparr>
      in case parseTag L (Text todo) todo of
           Inl e \<Rightarrow> Inl e
         | Inr todo1 \<Rightarrow>
             (case parseFormatText (Text todo1) todo1 of
                Inl e \<Rightarrow> Inl e
              | Inr todo2 \<Rightarrow> Inr (idt, todo2)))"

subsection \<open>Building the tree\<close>

text \<open>
  The state the functions below update in place: the store of the nodes allocated so far
  and the \<open>Todofile\<close> under construction.
\<close>

type_synonym store = "heap \<times> Todofile"

definition Add :: "nat \<Rightarrow> nat \<Rightarrow> heap \<Rightarrow> heap" where
  "Add node child h =
     (let h1 = h[child := (h ! child)\<lparr>parent := Some node\<rparr>]
      in h1[node := (h1 ! node)\<lparr>Items := Items (h1 ! node) @ [child]\<rparr>])"

definition getParent :: "nat option \<Rightarrow> store \<Rightarrow> nat option" where
  "getParent node st = (case node of None \<Rightarrow> None | Some n \<Rightarrow> parent (fst st ! n))"

definition parentAdd :: "nat option \<Rightarrow> nat \<Rightarrow> store \<Rightarrow> store" where
  "parentAdd par node st =
     (case par of
        None \<Rightarrow> (fst st, (snd st)\<lparr>FileItems := FileItems (snd st) @ [node]\<rparr>)
      | Some p \<Rightarrow> (Add p node (fst st), snd st))"

text \<open>
  \<open>parseNode\<close> returns the tracked parent and the new node (\<open>&node\<close>: a fresh cell at
  the end of the store).  The error it would pass on is the one of \<open>parseLine\<close>.
\<close>

definition parseNode ::
  "(rune \<Rightarrow> bool) \<Rightarrow> nat option \<Rightarrow> nat option \<Rightarrow> string \<Rightarrow> store
     \<Rightarrow> error + ((nat option \<times> nat option) \<times> store)" where
  "parseNode L prev par line st =
     (case parseLine L line of
        Inl e \<Rightarrow> Inl e
      | Inr (idt, todo) \<Rightarrow>
          let node = length (fst st);
              st1 = (fst st @ [todo], snd st)
          in case prev of
               None \<Rightarrow> Inr ((par, Some node), parentAdd None node st1)
             | Some pv \<Rightarrow>
                 if idt > Ident (fst st1 ! pv) then
                   Inr ((Some pv, Some node), (Add pv node (fst st1), snd st1))
                 else if idt < Ident (fst st1 ! pv) then
                   Inr ((getParent par st1, Some node), parentAdd (getParent par st1) node st1)
                 else Inr ((par, Some node), parentAdd par node st1))"

text \<open>
  \<open>unicode.IsSpace\<close>, and the test \<open>len(strings.TrimSpace(line)) == 0\<close>: a line trims to
  the empty string exactly when each of its runes is white space.
\<close>

definition IsSpace :: "rune \<Rightarrow> bool" where
  "IsSpace r =
     ((9 \<le> r \<and> r \<le> 13) \<or> r = 32 \<or> r = 133 \<or> r = 160 \<or> r = 5760
      \<or> (8192 \<le> r \<and> r \<le> 8202) \<or> r = 8232 \<or> r = 8233 \<or> r = 8239 \<or> r = 8287
      \<or> r = 12288)"

definition blank :: "string \<Rightarrow> bool" where
  "blank line = list_all IsSpace (runes line)"

text \<open>
  The loop of \<open>Parse\<close> over the lines the scanner delivers; its state is \<open>prev\<close>, the
  tracked \<open>parent\<close> and the store.
\<close>

type_synonym pstate = "nat option \<times> nat option \<times> store"

definition parseStep :: "(rune \<Rightarrow> bool) \<Rightarrow> string \<Rightarrow> pstate \<Rightarrow> error + pstate" where
  "parseStep L line ps =
     (case ps of (prev, par, st) \<Rightarrow>
        if blank line then Inr ps
        else case parseNode L prev par line st of
               Inl e \<Rightarrow> Inl e
             | Inr ((par', node), st') \<Rightarrow> Inr (node, par', st'))"

fun parseLoop :: "(rune \<Rightarrow> bool) \<Rightarrow> string list \<Rightarrow> pstate \<Rightarrow> error + pstate" where
  "parseLoop L [] ps = Inr ps"
| "parseLoop L (line # ls) ps =
     (case parseStep L line ps of Inl e \<Rightarrow> Inl e | Inr ps' \<Rightarrow> parseLoop L ls ps')"

definition initial :: pstate where
  "initial = (None, None, ([], \<lparr>FileItems = []\<rparr>))"

subsection \<open>Reading the lines\<close>

text \<open>
  A reader is the bytes it delivers and the way it ends: \<open>None\<close> for the end of the
  input, \<open>Some e\<close> for an error.  A \<open>bufio.Scanner\<close> with \<open>ScanLines\<close> cuts the bytes at
  each \<open>\n\<close>, drops one \<open>\r\<close> at the end of a line, and delivers a last line without
  \<open>\n\<close> when it is not empty; the bytes read before an error are cut the same way.  A
  line of \<open>MaxScanTokenSize\<close> bytes or more does not fit the buffer: the scan stops
  there.  (The reader is taken to report its end or error on a read of its own, as a
  file does.)  \<open>Err\<close> is what the method \<open>Err\<close> of the scanner answers after the scan.
\<close>

type_synonym reader = "string \<times> error option"

fun split_lines :: "string \<Rightarrow> string \<Rightarrow> string list" where
  "split_lines cur [] = (if cur = [] then [] else [cur])"
| "split_lines cur (c # s) =
     (if c = CHR 0x0A then cur # split_lines [] s else split_lines (cur @ [c]) s)"

definition dropCR :: "string \<Rightarrow> string" where
  "dropCR l = (if l \<noteq> [] \<and> last l = CHR 0x0D then butlast l else l)"

definition MaxScanTokenSize :: nat where
  "MaxScanTokenSize = 65536"

definition ScanLines :: "string \<Rightarrow> string list" where
  "ScanLines data =
     map dropCR (takeWhile (\<lambda>l. length l < MaxScanTokenSize) (split_lines [] data))"

definition Err :: "reader \<Rightarrow> error option" where
  "Err r =
     (if list_all (\<lambda>l. length l < MaxScanTokenSize) (split_lines [] (fst r)) then snd r
      else Some ErrTooLong)"

text \<open>
  \<open>Parse\<close>: the loop runs while \<open>s.Scan()\<close> delivers a line, and the function then returns
  the \<open>Todofile\<close> with a \<open>nil\<close> error.  The source does not call \<open>s.Err()\<close>, so the way
  the reader ended takes no part in the result.
\<close>

definition Parse :: "(rune \<Rightarrow> bool) \<Rightarrow> string \<Rightarrow> reader \<Rightarrow> error + store" where
  "Parse L filename r =
     (case parseLoop L (ScanLines (fst r)) initial of
        Inl e \<Rightarrow> Inl e
      | Inr (prev, par, st) \<Rightarrow> Inr st)"

section \<open>The printer (\<open>printer/printer.go\<close>) and auto-numbering (\<open>cmd/root.go\<close>)\<close>

subsection \<open>Walking the tree\<close>

text \<open>
  \<open>(*Todoitem).Printer\<close> calls \<open>printer\<close> on the node and then walks the children in
  order.  The recursion follows pointers, so it is given fuel: \<open>None\<close> is a walk that has
  not returned within the fuel.  The callback updates a state \<open>'s\<close> (the writer and
  whatever it has captured) or fails.
\<close>

fun Printer :: "nat \<Rightarrow> heap \<Rightarrow> nat \<Rightarrow> (Todoitem \<Rightarrow> 's \<Rightarrow> error + 's) \<Rightarrow> 's \<Rightarrow> (error + 's) option"
  and Printer_children ::
    "nat \<Rightarrow> heap \<Rightarrow> nat list \<Rightarrow> (Todoitem \<Rightarrow> 's \<Rightarrow> error + 's) \<Rightarrow> 's \<Rightarrow> (error + 's) option"
where
  "Printer 0 h node printer w = None"
| "Printer (Suc fuel) h node printer w =
     (case printer (h ! node) w of
        Inl e \<Rightarrow> Some (Inl e)
      | Inr w1 \<Rightarrow> Printer_children fuel h (Items (h ! node)) printer w1)"
| "Printer_children fuel h [] printer w = Some (Inr w)"
| "Printer_children fuel h (child # rest) printer w =
     (case Printer fuel h child printer w of
        None \<Rightarrow> None
      | Some (Inl e) \<Rightarrow> Some (Inl e)
      | Some (Inr w1) \<Rightarrow> Printer_children fuel h rest printer w1)"

subsection \<open>The pipes\<close>

text \<open>\<open>numRe\<close> is \<open>^(\d+).\<close>.\<close>

definition numRe :: re where
  "numRe = Seq Bol (Seq (Grp 1 (PlusG re_d)) (Cls re_dot))"

text \<open>\<open>string(r[n:])\<close> for \<open>r := []rune(text)\<close>: a panic when \<open>n\<close> is beyond the runes.\<close>

definition runes_from :: "string \<Rightarrow> nat \<Rightarrow> error + string" where
  "runes_from text n =
     (if n \<le> length (runes text) then Inr (string_of_runes (drop n (runes text)))
      else Inl Panic)"

text \<open>
  The function \<open>regeneratorNumber(num)\<close> returns, called on a node when its captured
  counter is \<open>num\<close>: the new counter and the node as updated.  \<open>log.Fatal\<close> ends the
  process (\<open>Fatal\<close>).
\<close>

definition regeneratorNumber_call :: "int \<Rightarrow> Todoitem \<Rightarrow> error + (int \<times> Todoitem)" where
  "regeneratorNumber_call num node =
     (if Type node = ItItem then
        let ss = FindStringSubmatch numRe 1 (Text node) in
        if length ss = 0 then
          let prefix = Itoa num @ ''. '' in
          Inr (wrap64 (num + 1),
               node\<lparr>offset := int (length prefix), Text := prefix @ Text node\<rparr>)
        else
          case Atoi (ss ! 1) of
            Inl e \<Rightarrow> Inl e
          | Inr n \<Rightarrow>
              let oldns = Itoa n;
                  ns = Itoa num;
                  num1 = (if n > num then n else num);
                  ofs = int (length ns) - int (length oldns);
                  node1 = node\<lparr>offset := ofs\<rparr>
              in if ofs > 0 then
                   (case runes_from (Text node) (length ns) of
                      Inl e \<Rightarrow> Inl e
                    | Inr rest \<Rightarrow>
                        Inr (wrap64 (num1 + 1), node1\<lparr>Text := (Itoa num1 @ ''.'') @ rest\<rparr>))
                 else if ofs < 0 then Inr (wrap64 (num1 + 1), node1)
                 else
                   (case runes_from (Text node) (length ns) of
                      Inl e \<Rightarrow> Inl e
                    | Inr rest \<Rightarrow> Inr (wrap64 (num1 + 1), node1\<lparr>Text := Itoa num1 @ rest\<rparr>))
      else Inr (num, node))"

text \<open>
  A \<open>PrinterFunc\<close> is a closure; the only one the program builds is the result of
  \<open>regeneratorNumber\<close>, whose captured variable is the counter.  Calling a pipe gives the
  closure with its variable updated, and the node.
\<close>

datatype PrinterFunc = regeneratorNumber int

fun call :: "PrinterFunc \<Rightarrow> Todoitem \<Rightarrow> error + (PrinterFunc \<times> Todoitem)" where
  "call (regeneratorNumber num) node =
     (case regeneratorNumber_call num node of
        Inl e \<Rightarrow> Inl e
      | Inr (num', node') \<Rightarrow> Inr (regeneratorNumber num', node'))"

text \<open>\<open>for _, pipe := range print.pipes { pipe(&nnode, w) }\<close>.\<close>

fun run_pipes :: "PrinterFunc list \<Rightarrow> Todoitem \<Rightarrow> error + (PrinterFunc list \<times> Todoitem)" where
  "run_pipes [] node = Inr ([], node)"
| "run_pipes (pipe # pipes) node =
     (case call pipe node of
        Inl e \<Rightarrow> Inl e
      | Inr (pipe', node1) \<Rightarrow>
          (case run_pipes pipes node1 of
             Inl e \<Rightarrow> Inl e
           | Inr (pipes', node2) \<Rightarrow> Inr (pipe' # pipes', node2)))"

text \<open>
  \<open>copier.Copy(&nnode, node)\<close> copies the exported fields; \<open>parent\<close> and \<open>offset\<close> keep
  their zero values.
\<close>

definition Copy :: "Todoitem \<Rightarrow> Todoitem" where
  "Copy node = node\<lparr>parent := None, offset := 0\<rparr>"

subsection \<open>Plain output\<close>

text \<open>\<open>strings.Repeat\<close> panics on a negative count.\<close>

definition Repeat :: "string \<Rightarrow> int \<Rightarrow> error + string" where
  "Repeat s n = (if n < 0 then Inl Panic else Inr (concat (replicate (nat n) s)))"

definition print :: "Todoitem \<Rightarrow> string \<Rightarrow> error + string" where
  "print node w =
     (case Repeat '' '' (Ident node) of
        Inl e \<Rightarrow> Inl e
      | Inr sp \<Rightarrow>
          if Type node = ItItem then Inr (w @ sp @ Token node @ '' '' @ Text node @ [CHR 0x0A])
          else Inr (w @ sp @ Text node @ [CHR 0x0A]))"

text \<open>
  The callback of \<open>printNodePipesWithoutColor\<close>; its state is the pipes and the writer.
\<close>

definition plainNode ::
  "Todoitem \<Rightarrow> PrinterFunc list \<times> string \<Rightarrow> error + (PrinterFunc list \<times> string)" where
  "plainNode node st =
     (case run_pipes (fst st) (Copy node) of
        Inl e \<Rightarrow> Inl e
      | Inr (pipes', nnode) \<Rightarrow>
          (case print nnode (snd st) of Inl e \<Rightarrow> Inl e | Inr w \<Rightarrow> Inr (pipes', w)))"

text \<open>
  \<open>WriteTo\<close>: every root in order, each walked with the callback.  The result is the
  state of the pipes and what was written.
\<close>

definition WriteTo ::
  "nat \<Rightarrow> store \<Rightarrow> PrinterFunc list \<Rightarrow> string \<Rightarrow> (error + (PrinterFunc list \<times> string)) option" where
  "WriteTo fuel todofile pipes w =
     Printer_children fuel (fst todofile) (FileItems (snd todofile)) plainNode (pipes, w)"

subsection \<open>Styled output\<close>

text \<open>
  The categories of the palette (the type \<open>ItemType\<close> of package \<open>printer\<close>) and the
  attributes of \<open>github.com/fatih/color\<close> by their SGR codes.  A \<open>*color.Color\<close> is the
  list of its attributes, \<open>nil\<close> is \<open>None\<close>.
\<close>

datatype ItemType_printer =
    ClBase | ClItem | ClTitle | ClText | ClDone | ClCancel | ClTag | ClTime | ClUser
  | ClHighlight | ClCustom1 | ClCustom2 | ClCustom3 | ClCustom4 | ClBold | ClItalic | ClDeleted

type_synonym Color = nat

definition defaultPalette :: "(ItemType_printer \<times> Color list) list" where
  "defaultPalette =
     [(ClBase, [37]), (ClItem, [37]), (ClTitle, [36]), (ClText, [2]), (ClDone, [32]),
      (ClCancel, [31]), (ClTag, [33]), (ClCustom1, [101, 30]), (ClCustom2, [106, 30]),
      (ClCustom3, [43, 30]), (ClCustom4, [45, 30]), (ClBold, [1]), (ClItalic, [3]),
      (ClDeleted, [9]), (ClHighlight, [93])]"

record Printer_rec =
  Palette :: "(ItemType_printer \<times> Color list) list"
  todofile :: store
  pipes :: "PrinterFunc list"

definition New :: "store \<Rightarrow> Printer_rec" where
  "New tf = \<lparr>Palette = defaultPalette, todofile = tf, pipes = []\<rparr>"

definition AddPipe :: "Printer_rec \<Rightarrow> PrinterFunc \<Rightarrow> Printer_rec" where
  "AddPipe pr pipefunc = pr\<lparr>pipes := pipes pr @ [pipefunc]\<rparr>"

definition typeClr :: "ItemType \<Rightarrow> ItemType_printer" where
  "typeClr typ = (case typ of ItItem \<Rightarrow> ClItem | ItTitle \<Rightarrow> ClTitle | ItText \<Rightarrow> ClText)"

definition statuClr :: "ItemStatus \<Rightarrow> ItemType_printer" where
  "statuClr status = (case status of StDone \<Rightarrow> ClDone | StCancel \<Rightarrow> ClCancel | _ \<Rightarrow> ClBase)"

definition tagClr :: "TagType \<Rightarrow> ItemType_printer" where
  "tagClr tagTyp =
     (case tagTyp of
        TagNormal \<Rightarrow> ClTag | TagCritical \<Rightarrow> ClCustom1 | TagHigh \<Rightarrow> ClCustom2
      | TagLow \<Rightarrow> ClCustom3 | TagToday \<Rightarrow> ClCustom4 | TagBold \<Rightarrow> ClBold
      | TagItalic \<Rightarrow> ClItalic | TagDeleted \<Rightarrow> ClDeleted | TagCode \<Rightarrow> ClHighlight
      | _ \<Rightarrow> ClTag)"

definition pickColor :: "Printer_rec \<Rightarrow> ItemType_printer \<Rightarrow> Color list option" where
  "pickColor pr typ =
     (case map_of (Palette pr) typ of
        Some colors \<Rightarrow> (if colors = [] then None else Some colors)
      | None \<Rightarrow> Some [37])"

text \<open>
  \<open>c.Sprint(s)\<close> wraps \<open>s\<close> in the escape sequences of \<open>c\<close>: the piece of output is kept
  as the pair of the attributes and the text.  On a \<open>nil\<close> colour the call panics.
  Text written without a colour is a piece with no attribute.
\<close>

type_synonym piece = "Color list \<times> string"

definition Sprint :: "Color list option \<Rightarrow> string \<Rightarrow> error + piece" where
  "Sprint c s = (case c of None \<Rightarrow> Inl Panic | Some attrs \<Rightarrow> Inr (attrs, s))"

record colorTagOption =
  Offset :: int

definition shiftTag :: "Tag list \<Rightarrow> colorTagOption \<Rightarrow> Tag option \<times> Tag list" where
  "shiftTag tags opt =
     (case tags of
        [] \<Rightarrow> (None, [])
      | tag # rest \<Rightarrow>
          (Some (tag\<lparr>Start := wrap64 (Start tag + Offset opt),
                       Stop := wrap64 (Stop tag + Offset opt)\<rparr>), rest))"

text \<open>\<open>text[j:k]\<close> panics unless \<open>0 \<le> j \<le> k \<le> len(text)\<close>.\<close>

definition substr :: "string \<Rightarrow> int \<Rightarrow> int \<Rightarrow> error + string" where
  "substr text j k =
     (if 0 \<le> j \<and> j \<le> k \<and> k \<le> int (length text) then Inr (slice text (nat j) (nat k))
      else Inl Panic)"

text \<open>
  The loop of \<open>colorWithTags\<close>, from the test \<open>i < len(text)\<close> on: \<open>tag\<close> is the pending
  (shifted) span, \<open>tags\<close> the spans after it, \<open>full\<close> the output so far.  The three
  branches on \<open>tag\<close> set \<open>i\<close> and the loop then adds one to it.
\<close>

function colorLoop ::
  "Printer_rec \<Rightarrow> string \<Rightarrow> Color list option \<Rightarrow> colorTagOption \<Rightarrow> int \<Rightarrow> int \<Rightarrow> piece list
     \<Rightarrow> Tag option \<Rightarrow> Tag list \<Rightarrow> error + piece list" where
  "colorLoop pr text c opt i j full tag tags =
     (if \<not> i < int (length text) then Inr full
      else case tag of
        None \<Rightarrow>
          (case substr text j (int (length text)) of
             Inl e \<Rightarrow> Inl e
           | Inr t \<Rightarrow> (case Sprint c t of Inl e \<Rightarrow> Inl e | Inr p \<Rightarrow> Inr (full @ [p])))
      | Some tg \<Rightarrow>
          if i \<ge> Start tg \<and> i \<le> Stop tg then
            (case Sprint (pickColor pr (tagClr (TagTyp tg))) (TagText tg) of
               Inl e \<Rightarrow> Inl e
             | Inr p \<Rightarrow>
                 colorLoop pr text c opt (Stop tg - 1 + 1) (Stop tg) (full @ [p])
                   (fst (shiftTag tags opt)) (snd (shiftTag tags opt)))
          else if i < Start tg then
            (case substr text j (Start tg) of
               Inl e \<Rightarrow> Inl e
             | Inr t \<Rightarrow>
                 (case Sprint c t of
                    Inl e \<Rightarrow> Inl e
                  | Inr p \<Rightarrow> colorLoop pr text c opt (Start tg + 1) j (full @ [p]) tag tags))
          else if i > Stop tg then
            colorLoop pr text c opt (i + 1) i full
              (fst (shiftTag tags opt)) (snd (shiftTag tags opt))
          else colorLoop pr text c opt (i + 1) j full tag tags)"
  by pat_completeness auto
termination
  by (relation "inv_image (less_than <*lex*> less_than)
        (\<lambda>(pr, text, c, opt, i, j, full, tag, tags).
           (case tag of None \<Rightarrow> 0 | Some _ \<Rightarrow> Suc (length tags),
            nat (int (length text) - i)))")
    (auto simp: shiftTag_def split: list.splits)

declare colorLoop.simps [simp del]

definition colorWithTags ::
  "Printer_rec \<Rightarrow> string \<Rightarrow> Color list option \<Rightarrow> Tag list \<Rightarrow> colorTagOption \<Rightarrow> error + piece list" where
  "colorWithTags pr text c tags opt =
     (if length tags = 0 then
        (case Sprint c text of Inl e \<Rightarrow> Inl e | Inr p \<Rightarrow> Inr [p])
      else colorLoop pr text c opt 0 0 [] (fst (shiftTag tags opt)) (snd (shiftTag tags opt)))"

definition printColour :: "Printer_rec \<Rightarrow> Todoitem \<Rightarrow> piece list \<Rightarrow> error + piece list" where
  "printColour pr node w =
     (let cStat = pickColor pr (statuClr (Status node));
          ctxt = (if Status node = StDone \<or> Status node = StCancel then cStat
                  else pickColor pr (typeClr (Type node)))
      in if Type node = ItItem then
           (case colorWithTags pr (Text node) ctxt (Tags node) \<lparr>Offset = offset node\<rparr> of
              Inl e \<Rightarrow> Inl e
            | Inr mainText \<Rightarrow>
                (case Repeat '' '' (Ident node) of
                   Inl e \<Rightarrow> Inl e
                 | Inr sp \<Rightarrow>
                     (case Sprint cStat (Token node) of
                        Inl e \<Rightarrow> Inl e
                      | Inr tok \<Rightarrow>
                          Inr (w @ [([], sp), tok, ([], '' '')] @ mainText @ [([], [CHR 0x0A])]))))
         else
           (case Repeat '' '' (Ident node) of
              Inl e \<Rightarrow> Inl e
            | Inr sp \<Rightarrow>
                (case Sprint ctxt (Text node) of
                   Inl e \<Rightarrow> Inl e
                 | Inr txt \<Rightarrow> Inr (w @ [([], sp), txt, ([], [CHR 0x0A])]))))"

text \<open>The callback of \<open>printNodePipes\<close>, and \<open>Print\<close> (which ends with \<open>fmt.Println\<close>).\<close>

definition colourNode ::
  "Printer_rec \<Rightarrow> Todoitem \<Rightarrow> PrinterFunc list \<times> piece list
     \<Rightarrow> error + (PrinterFunc list \<times> piece list)" where
  "colourNode pr node st =
     (case run_pipes (fst st) (Copy node) of
        Inl e \<Rightarrow> Inl e
      | Inr (pipes', nnode) \<Rightarrow>
          (case printColour pr nnode (snd st) of Inl e \<Rightarrow> Inl e | Inr w \<Rightarrow> Inr (pipes', w)))"

definition Print :: "nat \<Rightarrow> Printer_rec \<Rightarrow> (error + piece list) option" where
  "Print fuel pr =
     (case Printer_children fuel (fst (todofile pr)) (FileItems (snd (todofile pr)))
             (colourNode pr) (pipes pr, []) of
        None \<Rightarrow> None
      | Some (Inl e) \<Rightarrow> Some (Inl e)
      | Some (Inr (pipes', sb)) \<Rightarrow> Some (Inr (sb @ [([], [CHR 0x0A])])))"

text \<open>
  \<open>printTodo\<close> and \<open>rewriteTodo\<close> of \<open>cmd/root.go\<close>: with the flag \<open>autoNumber\<close> the only
  pipe is \<open>regeneratorNumber(1)\<close>.  \<open>rewriteTodo\<close> writes to the truncated file.
\<close>

definition printTodo :: "nat \<Rightarrow> bool \<Rightarrow> store \<Rightarrow> (error + piece list) option" where
  "printTodo fuel autoNumber todo =
     Print fuel (if autoNumber then AddPipe (New todo) (regeneratorNumber 1) else New todo)"

definition rewriteTodo :: "nat \<Rightarrow> bool \<Rightarrow> store \<Rightarrow> (error + string) option" where
  "rewriteTodo fuel autoNumber todo =
     (case WriteTo fuel todo (if autoNumber then [regeneratorNumber 1] else []) [] of
        None \<Rightarrow> None
      | Some (Inl e) \<Rightarrow> Some (Inl e)
      | Some (Inr (pipes', w)) \<Rightarrow> Some (Inr w))"

section \<open>Properties of the parser and of the printer\<close>

subsection \<open>One line with an annotation\<close>

lemma parseLine_buy_milk:
  "parseLine L ''- [ ] buy milk @today'' =
     Inr (0, \<lparr>Ident = 0, Type = ItItem, Token = ''-'', Text = ''[ ] buy milk @today'',
              Status = StPending, StatusTimes = [],
              Tags = [\<lparr>Start = 13, Stop = 19, TagTyp = TagToday, TagText = ''@today''\<rparr>],
              Assignees = [], Items = [], parent = None, offset = 0\<rparr>)"
  by code_simp

lemma ScanLines_buy_milk: "ScanLines ''- [ ] buy milk @today'' = [''- [ ] buy milk @today'']"
  by (simp add: ScanLines_def dropCR_def MaxScanTokenSize_def)

lemma not_blank_buy_milk: "\<not> blank ''- [ ] buy milk @today''"
  by code_simp

text \<open>
  Claim C7.  The input \<open>- [ ] buy milk @today\<close> parses to exactly one node: an Item with
  status Pending that carries exactly one span, an annotation of kind Today whose literal
  is \<open>@today\<close> and whose range \<open>[13, 19)\<close> is exactly where \<open>@today\<close> stands in the text of
  the node.  (The glyph of the node is \<open>-\<close>; \<open>[ ]\<close> is the start of its text.)
\<close>

theorem C7_buy_milk_today:
  "Parse L filename (''- [ ] buy milk @today'', e) =
     Inr ([\<lparr>Ident = 0, Type = ItItem, Token = ''-'', Text = ''[ ] buy milk @today'',
             Status = StPending, StatusTimes = [],
             Tags = [\<lparr>Start = 13, Stop = 19, TagTyp = TagToday, TagText = ''@today''\<rparr>],
             Assignees = [], Items = [], parent = None, offset = 0\<rparr>],
          \<lparr>FileItems = [0]\<rparr>)
   \<and> slice ''[ ] buy milk @today'' 13 19 = ''@today''"
  by (simp add: Parse_def ScanLines_buy_milk initial_def parseStep_def not_blank_buy_milk
      parseNode_def parseLine_buy_milk parentAdd_def slice_def)

subsection \<open>The styled compositor\<close>









text \<open>
  Claim C3 (the code does not do this).  A node whose text is \<open>*b*\<close>, with the one span
  the parser gives it (\<open>[0, 3)\<close>, bold) and a render offset of 10, has its span shifted
  to \<open>[10, 13)\<close>, beyond the text: the compositor slices \<open>text[0:10]\<close> and panics.  The
  auto-numbering pipe reaches the same state: with its counter at 10000, the item
  \<open>- 5 a **\<close> becomes the text \<open>10000.*\<close> with offset 4, the span \<open>[4, 6)\<close> is shifted
  to \<open>[8, 10)\<close>, and the styled render panics.  And when the only span is shifted wholly
  before a text of one byte, nothing at all is emitted.
\<close>

lemma parseLine_5_a:
  "parseLine L ''- 5 a **'' =
     Inr (0, \<lparr>Ident = 0, Type = ItItem, Token = ''-'', Text = ''5 a **'', Status = StPending,
              StatusTimes = [],
              Tags = [\<lparr>Start = 4, Stop = 6, TagTyp = TagBold, TagText = ''**''\<rparr>],
              Assignees = [], Items = [], parent = None, offset = 0\<rparr>)"
  by code_simp

lemma renumber_5_a:
  "regeneratorNumber_call 10000
     \<lparr>Ident = 0, Type = ItItem, Token = ''-'', Text = ''5 a **'', Status = StPending,
      StatusTimes = [],
      Tags = [\<lparr>Start = 4, Stop = 6, TagTyp = TagBold, TagText = ''**''\<rparr>],
      Assignees = [], Items = [], parent = None, offset = 0\<rparr> =
   Inr (10001,
     \<lparr>Ident = 0, Type = ItItem, Token = ''-'', Text = ''10000.*'', Status = StPending,
      StatusTimes = [],
      Tags = [\<lparr>Start = 4, Stop = 6, TagTyp = TagBold, TagText = ''**''\<rparr>],
      Assignees = [], Items = [], parent = None, offset = 4\<rparr>)"
  by code_simp

lemma render_5_a:
  "printColour (New st)
     \<lparr>Ident = 0, Type = ItItem, Token = ''-'', Text = ''10000.*'', Status = StPending,
      StatusTimes = [],
      Tags = [\<lparr>Start = 4, Stop = 6, TagTyp = TagBold, TagText = ''**''\<rparr>],
      Assignees = [], Items = [], parent = None, offset = 4\<rparr> [] = Inl Panic"
  by code_simp

lemma span_beyond_text:
  "colorWithTags (New st) ''*b*'' (Some [37])
     [\<lparr>Start = 0, Stop = 3, TagTyp = TagBold, TagText = ''*b*''\<rparr>] \<lparr>Offset = 10\<rparr> = Inl Panic"
  by code_simp

lemma span_before_text:
  "colorWithTags (New st) ''a'' (Some [37])
     [\<lparr>Start = 0, Stop = 3, TagTyp = TagBold, TagText = ''*b*''\<rparr>] \<lparr>Offset = - 5\<rparr> = Inr []"
  by code_simp

theorem C3_out_of_range_span_faults:
  "colorWithTags (New st) ''*b*'' (Some [37])
     [\<lparr>Start = 0, Stop = 3, TagTyp = TagBold, TagText = ''*b*''\<rparr>] \<lparr>Offset = 10\<rparr> = Inl Panic
   \<and> (\<exists>n. parseLine L ''- 5 a **'' = Inr (0, n)
          \<and> (\<exists>n'. regeneratorNumber_call 10000 n = Inr (10001, n')
                \<and> printColour (New st) n' [] = Inl Panic))
   \<and> colorWithTags (New st) ''a'' (Some [37])
        [\<lparr>Start = 0, Stop = 3, TagTyp = TagBold, TagText = ''*b*''\<rparr>] \<lparr>Offset = - 5\<rparr> = Inr []"
  by (simp add: span_beyond_text span_before_text parseLine_5_a renumber_5_a render_5_a)

subsection \<open>Auto-numbering a numbered item\<close>

text \<open>
  Claim C5 (the code does not do this).  With the counter at 100, the item text
  \<open>5. foo\<close> becomes \<open>100.foo\<close>: the code drops as many runes as the counter has digits
  (three), not the old digit run, and writes a \<open>.\<close>, so the remainder \<open>. foo\<close> is not
  kept; the offset is 2 although the text grew by one byte.  With the counter at 1, the
  text \<open>10. foo\<close> is left as it is and the offset is set to \<open>-1\<close>.
\<close>

theorem C5_renumbering_alters_remainder:
  "regeneratorNumber_call 100 (zeroTodoitem\<lparr>Type := ItItem, Text := ''5. foo''\<rparr>)
     = Inr (101, zeroTodoitem\<lparr>Type := ItItem, Text := ''100.foo'', offset := 2\<rparr>)
   \<and> regeneratorNumber_call 1 (zeroTodoitem\<lparr>Type := ItItem, Text := ''10. foo''\<rparr>)
     = Inr (11, zeroTodoitem\<lparr>Type := ItItem, Text := ''10. foo'', offset := - 1\<rparr>)"
  by code_simp

subsection \<open>Errors of the reader\<close>

lemma parseLine_a:
  "parseLine L ''a'' =
     Inr (0, \<lparr>Ident = 0, Type = ItText, Token = [], Text = ''a'', Status = StUnknown,
              StatusTimes = [], Tags = [], Assignees = [], Items = [], parent = None,
              offset = 0\<rparr>)"
  by code_simp

lemma not_blank_a: "\<not> blank ''a''"
  by code_simp

lemma ScanLines_a: "ScanLines ''a'' = [''a'']"
  by (simp add: ScanLines_def dropCR_def MaxScanTokenSize_def)

text \<open>
  Claim C4 (the code does not do this).  A reader that delivers the bytes \<open>a\<close> and then
  fails with an I/O error leaves the scanner with that error, and \<open>Parse\<close> returns the
  document of the one node \<open>a\<close> with a \<open>nil\<close> error: in general the result of \<open>Parse\<close>
  is the same whether the reader ended with an error or not.
\<close>

theorem C4_read_error_is_swallowed:
  "Err (''a'', Some IOError) = Some IOError
   \<and> Parse L filename (''a'', Some IOError) =
       Inr ([\<lparr>Ident = 0, Type = ItText, Token = [], Text = ''a'', Status = StUnknown,
               StatusTimes = [], Tags = [], Assignees = [], Items = [], parent = None,
               offset = 0\<rparr>], \<lparr>FileItems = [0]\<rparr>)
   \<and> Parse L filename (data, Some e) = Parse L filename (data, None)"
  by (simp add: Err_def MaxScanTokenSize_def Parse_def ScanLines_a initial_def parseStep_def
      not_blank_a parseNode_def parseLine_a parentAdd_def)

end
